theory Spec2Isabelle
  imports Main "HOL-Library.Word"
begin

section \<open>The advent calendar box: data model of advent.ino\<close>

text \<open>
  The sketch \<^verbatim>\<open>src/advent/advent.ino\<close> keeps its state in global variables and
  advances a finite state machine once per call of \<^verbatim>\<open>loop()\<close>. The embedding below
  passes the globals as a record, takes everything the cycle reads from the hardware
  (clock, lid switch, RFID reader, result of the sound board) as an input record, and
  returns the new globals together with the list of hardware commands and diagnostic
  lines the cycle issued, in program order.
\<close>

type_synonym byte = "8 word"

text \<open>
  The user classes \<^verbatim>\<open>UserMaster = 1\<close>, \<^verbatim>\<open>UserStandard = 2\<close>, \<^verbatim>\<open>UserUnknown = 3\<close> and the
  states \<^verbatim>\<open>StateOpenedForFilling = 1\<close> ... \<^verbatim>\<open>StateOffSeason = 8\<close> are named byte
  constants in the sketch. The variables that hold them are only ever assigned these
  names, so each family is a datatype, listed in the order of its numbers.
\<close>

datatype user = UserMaster | UserStandard | UserUnknown

datatype box_state =
    StateOpenedForFilling
  | StateFilled
  | StateReadyForFirstUse
  | StateOpenedForChecking
  | StateReadyForUse
  | StateOpenedForEmptiing
  | StateEmpty
  | StateOffSeason

subsection \<open>Constants\<close>

definition LockOpenPos :: int where "LockOpenPos = 120"
definition LockClosedPos :: int where "LockClosedPos = 60"

definition RFIDMasterKey :: "byte list" where
  "RFIDMasterKey = [0x04, 0xFE, 0xB3, 0x7A, 0xAF, 0x48, 0x80]"

definition RFIDStandardKey :: "byte list" where
  "RFIDStandardKey = [0x04, 0x72, 0xD9, 0x7A, 0xAF, 0x48, 0x80]"

definition AnnouncementBoxFilled :: byte where "AnnouncementBoxFilled = 0"
definition AnnouncementBoxOpenedForCheck :: byte where "AnnouncementBoxOpenedForCheck = 1"
definition AnnouncementBoxClosedAfterCheck :: byte where "AnnouncementBoxClosedAfterCheck = 2"
definition AnnouncementBoxOpenedForCheckAlreadyPreparedForFirstUse :: byte where
  "AnnouncementBoxOpenedForCheckAlreadyPreparedForFirstUse = 3"
definition AnnouncementBoxClosedAfterCheckAlreadyPreparedForFirstUse :: byte where
  "AnnouncementBoxClosedAfterCheckAlreadyPreparedForFirstUse = 4"
definition AnnouncementBoxOpenedForCheckAlreadyPrepared :: byte where
  "AnnouncementBoxOpenedForCheckAlreadyPrepared = 5"
definition AnnouncementBoxClosedAfterCheckAlreadyPrepared :: byte where
  "AnnouncementBoxClosedAfterCheckAlreadyPrepared = 6"
definition AnnouncementFirsUseExplanation :: byte where "AnnouncementFirsUseExplanation = 7"
definition AnnouncementBoxClosed :: byte where "AnnouncementBoxClosed = 8"
definition AnnouncementLastDay :: byte where "AnnouncementLastDay = 9"
definition AnnouncementBoxOpenedForFilling :: byte where "AnnouncementBoxOpenedForFilling = 10"
definition AnnouncementBoxOpenedForFirstFilling :: byte where
  "AnnouncementBoxOpenedForFirstFilling = 11"
definition AnnouncementUnknownKey :: byte where "AnnouncementUnknownKey = 12"
definition AnnouncementUserTriedEarly :: byte where "AnnouncementUserTriedEarly = 13"
definition AnnouncementUserTriedAgain :: byte where "AnnouncementUserTriedAgain = 14"
definition AnnouncementUserTriedOffSeason :: byte where "AnnouncementUserTriedOffSeason = 15"
definition DaylyEarlyMorningGreeting :: byte where "DaylyEarlyMorningGreeting = 16"
definition DaylyMorningGreeting :: byte where "DaylyMorningGreeting = 17"
definition DaylyGreeting :: byte where "DaylyGreeting = 18"

definition DaylyAnnouncement :: "byte list" where
  "DaylyAnnouncement = [19, 20, 21, 22, 23, 24, 25, 26,
                        27, 28, 29, 30, 31, 32, 33, 34,
                        35, 36, 37, 38, 39, 40, 41, 42]"

subsection \<open>Globals, inputs of one cycle, and what a cycle emits\<close>

text \<open>
  The globals of the sketch. \<^verbatim>\<open>lastMinute\<close>, \<^verbatim>\<open>lastDay\<close> and \<^verbatim>\<open>lastState\<close> are
  \<^verbatim>\<open>int8_t\<close>: the first two are 8-bit words read as signed, and \<^verbatim>\<open>lastState\<close>, which
  holds \<^verbatim>\<open>-1\<close> or a state number, is an optional state (\<open>None\<close> for \<^verbatim>\<open>-1\<close>).
  \<^verbatim>\<open>lastMillis\<close> is declared but never read or written and is left out.
\<close>

record globals =
  lastMinute :: byte
  lastDay :: byte
  lastState :: "box_state option"
  userKey :: user
  boxState :: box_state
  blinking :: bool
  firstUse :: bool

text \<open>
  The values at power-on: the initialisers of the globals, and \<^verbatim>\<open>setup()\<close>, which sets
  \<^verbatim>\<open>boxState = StateOffSeason\<close> again.
\<close>

definition initial :: globals where
  "initial = \<lparr> lastMinute = - 1, lastDay = - 1, lastState = None, userKey = UserUnknown,
               boxState = StateOffSeason, blinking = False, firstUse = True \<rparr>"

text \<open>
  What one call of \<^verbatim>\<open>loop()\<close> reads. The clock fields are the \<^verbatim>\<open>uint8_t\<close> values the
  clock library hands out after \<^verbatim>\<open>rtc.update()\<close>; they do not change within a cycle.
  The lid switch is read by a separate \<^verbatim>\<open>digitalRead(LID_BUTTON)\<close> at every test, so
  \<open>lid_low i k\<close> says whether the \<open>k\<close>-th read of the cycle (from 0) returned
  \<^verbatim>\<open>LOW\<close>, that is, lid closed. \<open>uid_size\<close> and \<open>uid_uidByte\<close> are \<^verbatim>\<open>rfid.uid.size\<close>
  and the buffer \<^verbatim>\<open>rfid.uid.uidByte\<close>. \<open>sfx_playTrack i k\<close> is the value returned by
  the \<open>k\<close>-th call of \<^verbatim>\<open>sfx.playTrack\<close> in the cycle.
  \<open>outside_DaylyAnnouncement i idx\<close> is the byte that the read
  \<^verbatim>\<open>DaylyAnnouncement[idx]\<close> returns when \<open>idx\<close> is not an index of the table: the
  sketch does not determine it (it is whatever lies at that offset from the table in
  memory), so it is an input of the cycle.
\<close>

record input =
  rtc_minute :: byte
  rtc_hour :: byte
  rtc_date :: byte
  rtc_month :: byte
  rtc_sqw :: bool
  lid_low :: "nat \<Rightarrow> bool"
  picc_IsNewCardPresent :: bool
  picc_ReadCardSerial :: bool
  uid_size :: byte
  uid_uidByte :: "byte list"
  sfx_playTrack :: "nat \<Rightarrow> bool"
  outside_DaylyAnnouncement :: "int \<Rightarrow> byte"

text \<open>
  The commands and diagnostic lines of a cycle. \<open>PrintTime\<close> stands for the line that
  \<^verbatim>\<open>printTime()\<close> writes to the serial port; its text is not modelled.
\<close>

datatype event =
    SerialPrint string
  | SerialPrintln string
  | SerialPrintlnByte byte
  | PrintTime
  | DigitalWriteLed bool
  | SfxPlayTrack byte
  | ServoAttach
  | ServoWrite int
  | ServoDetach
  | Delay nat

text \<open>The tracks handed to the sound board, in order.\<close>

fun played :: "event list \<Rightarrow> byte list" where
  "played [] = []"
| "played (SfxPlayTrack t # es) = t # played es"
| "played (_ # es) = played es"

text \<open>The events that only go to the serial diagnostic channel.\<close>

fun diagnostic :: "event \<Rightarrow> bool" where
  "diagnostic (SerialPrint _) = True"
| "diagnostic (SerialPrintln _) = True"
| "diagnostic (SerialPrintlnByte _) = True"
| "diagnostic PrintTime = True"
| "diagnostic _ = False"

text \<open>What the cycle does to the hardware: everything but the diagnostic lines.\<close>

fun actions :: "event list \<Rightarrow> event list" where
  "actions [] = []"
| "actions (e # es) = (if diagnostic e then actions es else e # actions es)"

text \<open>
  The lines by which \<^verbatim>\<open>playTrack\<close> reports a failed playback:
  \<^verbatim>\<open>Serial.print("Failed to play track ")\<close> and \<^verbatim>\<open>Serial.println(track)\<close>. No other
  statement of the sketch prints without a line end or prints a byte.
\<close>

fun failure_line :: "event \<Rightarrow> bool" where
  "failure_line (SerialPrint msg) = (msg = ''Failed to play track '')"
| "failure_line (SerialPrintlnByte _) = True"
| "failure_line _ = False"

definition failure_lines :: "event list \<Rightarrow> event list" where
  "failure_lines es = filter failure_line es"

definition other_events :: "event list \<Rightarrow> event list" where
  "other_events es = filter (\<lambda>e. \<not> failure_line e) es"

text \<open>
  The report owed for a list of tracks handed to the sound board, the first of them by
  call number \<open>k\<close>, when \<open>ok\<close> gives the result of each call: the two pieces of text
  for each call that returned false, in the order of the calls.
\<close>

fun failed_calls_report :: "(nat \<Rightarrow> bool) \<Rightarrow> nat \<Rightarrow> byte list \<Rightarrow> event list" where
  "failed_calls_report ok k [] = []"
| "failed_calls_report ok k (t # ts) =
     (if ok k then [] else [SerialPrint ''Failed to play track '', SerialPrintlnByte t])
     @ failed_calls_report ok (Suc k) ts"

section \<open>The functions of the sketch\<close>

subsection \<open>readRFIDKey\<close>

text \<open>
  \<^verbatim>\<open>memcmp(a, b, n)\<close> on two byte buffers: the difference of the first pair of bytes
  that differ among the first \<open>n\<close>, 0 when there is none. A buffer shorter than the
  bytes the comparison needs would be read past its end; that is \<open>None\<close>.
\<close>

fun memcmp :: "byte list \<Rightarrow> byte list \<Rightarrow> nat \<Rightarrow> int option" where
  "memcmp _ _ 0 = Some 0"
| "memcmp (a # as) (b # bs) (Suc n) =
     (if a = b then memcmp as bs n else Some (uint a - uint b))"
| "memcmp _ _ (Suc n) = None"

text \<open>
  \<^verbatim>\<open>sizeof(RFIDMasterKey)\<close> and \<^verbatim>\<open>sizeof(RFIDStandardKey)\<close> are the lengths of the two
  byte arrays.
\<close>

definition readRFIDKey :: "input \<Rightarrow> user" where
  "readRFIDKey i =
     (if unat (uid_size i) = length RFIDMasterKey
         \<and> memcmp (uid_uidByte i) RFIDMasterKey (length RFIDMasterKey) = Some 0
      then UserMaster
      else if unat (uid_size i) = length RFIDStandardKey
         \<and> memcmp (uid_uidByte i) RFIDStandardKey (length RFIDStandardKey) = Some 0
      then UserStandard
      else UserUnknown)"

subsection \<open>playTrack, lockLid, unlockLid\<close>

text \<open>
  \<^verbatim>\<open>playTrack(track)\<close> hands the track to the sound board and, when the board reports
  failure, writes two pieces of text to the serial port. \<open>ok\<close> is what
  \<^verbatim>\<open>sfx.playTrack(track)\<close> returned.
\<close>

definition playTrack :: "bool \<Rightarrow> byte \<Rightarrow> event list" where
  "playTrack ok track =
     SfxPlayTrack track #
     (if ok then [] else [SerialPrint ''Failed to play track '', SerialPrintlnByte track])"

definition lockLid :: "event list" where
  "lockLid = [ServoAttach, ServoWrite LockClosedPos, Delay 500, ServoDetach]"

definition unlockLid :: "event list" where
  "unlockLid = [ServoAttach, ServoWrite LockOpenPos, Delay 500, ServoDetach]"

subsection \<open>doDailyAnnouncement\<close>

text \<open>
  The read \<^verbatim>\<open>DaylyAnnouncement[idx]\<close>. The index of the sketch is the \<^verbatim>\<open>int\<close>
  \<^verbatim>\<open>rtc.date() - 1\<close>. \<open>DaylyAnnouncement_at\<close> is the entry of the table at an index
  of the table and \<open>None\<close> at any other index; \<open>DaylyAnnouncement_read\<close> is the byte
  the sketch gets: the entry, or for an index outside the table the byte found there.
\<close>

definition DaylyAnnouncement_at :: "int \<Rightarrow> byte option" where
  "DaylyAnnouncement_at idx =
     (if 0 \<le> idx \<and> idx < int (length DaylyAnnouncement)
      then Some (DaylyAnnouncement ! nat idx) else None)"

definition DaylyAnnouncement_read :: "input \<Rightarrow> int \<Rightarrow> byte" where
  "DaylyAnnouncement_read i idx =
     (case DaylyAnnouncement_at idx of
        Some track \<Rightarrow> track
      | None \<Rightarrow> outside_DaylyAnnouncement i idx)"

text \<open>
  The greeting is the first call of \<^verbatim>\<open>sfx.playTrack\<close> in the cycle, the track of the
  day the second; both calls are made whatever the date.
\<close>

definition doDailyAnnouncement :: "input \<Rightarrow> event list" where
  "doDailyAnnouncement i =
     (if uint (rtc_hour i) > 5 \<and> uint (rtc_hour i) < 7
        then playTrack (sfx_playTrack i 0) DaylyEarlyMorningGreeting
      else if uint (rtc_hour i) > 5 \<and> uint (rtc_hour i) < 11
        then playTrack (sfx_playTrack i 0) DaylyMorningGreeting
      else playTrack (sfx_playTrack i 0) DaylyGreeting)
     @ [Delay 5000]
     @ playTrack (sfx_playTrack i 1) (DaylyAnnouncement_read i (uint (rtc_date i) - 1))"

subsection \<open>loop\<close>

text \<open>
  The head of \<^verbatim>\<open>loop()\<close>: the time is printed when the minute has changed, and the LED
  follows the square wave of the clock while \<^verbatim>\<open>blinking\<close> is set.
\<close>

definition loop_head :: "globals \<Rightarrow> input \<Rightarrow> globals \<times> event list" where
  "loop_head s i =
     (let (s1, es) =
            (if uint (rtc_minute i) \<noteq> sint (lastMinute s)
             then (s\<lparr>lastMinute := rtc_minute i\<rparr>, [PrintTime])
             else (s, []))
      in (s1, es @ [DigitalWriteLed (if blinking s1 then rtc_sqw i else False)]))"

text \<open>
  Every case of the switch starts with
  \<^verbatim>\<open>if(lastState != boxState) { Serial.println(msg); lastState = boxState; }\<close>.
\<close>

definition printState :: "string \<Rightarrow> globals \<Rightarrow> globals \<times> event list" where
  "printState msg s =
     (if lastState s \<noteq> Some (boxState s)
      then (s\<lparr>lastState := Some (boxState s)\<rparr>, [SerialPrintln msg])
      else (s, []))"

text \<open>
  \<^verbatim>\<open>if(rfid.PICC_IsNewCardPresent()) { if(rfid.PICC_ReadCardSerial()) {\<close>
  \<^verbatim>\<open>userKey = readRFIDKey(); ...\<close>: the class of the token when both calls succeed,
  \<open>None\<close> when the cycle handles no token.
\<close>

definition readCard :: "input \<Rightarrow> user option" where
  "readCard i =
     (if picc_IsNewCardPresent i then
        (if picc_ReadCardSerial i then Some (readRFIDKey i) else None)
      else None)"

definition loop_StateOpenedForFilling :: "globals \<Rightarrow> input \<Rightarrow> globals \<times> event list" where
  "loop_StateOpenedForFilling s0 i =
     (let (s, d) = printState ''State: Openend for filling'' s0 in
      if lid_low i 0
      then (s\<lparr>boxState := StateFilled\<rparr>,
            d @ playTrack (sfx_playTrack i 0) AnnouncementBoxFilled @ lockLid)
      else (s, d))"

definition loop_StateFilled :: "globals \<Rightarrow> input \<Rightarrow> globals \<times> event list" where
  "loop_StateFilled s0 i =
     (let (s, d) = printState ''State: Filled'' s0 in
      if rtc_month i = 12 \<and> uint (rtc_date i) \<noteq> sint (lastDay s) \<and> firstUse s
      then (s\<lparr>lastDay := rtc_date i, blinking := True, boxState := StateReadyForFirstUse\<rparr>, d)
      else if rtc_month i = 12 \<and> uint (rtc_date i) \<noteq> sint (lastDay s)
      then (s\<lparr>blinking := True, boxState := StateReadyForUse\<rparr>, d)
      else
        (case readCard i of
           None \<Rightarrow> (s, d)
         | Some UserMaster \<Rightarrow>
             (s\<lparr>userKey := UserMaster, boxState := StateOpenedForChecking\<rparr>,
              d @ playTrack (sfx_playTrack i 0) AnnouncementBoxOpenedForCheck
                @ unlockLid @ [Delay 5000])
         | Some UserStandard \<Rightarrow>
             (s\<lparr>userKey := UserStandard, boxState := StateFilled\<rparr>,
              d @ playTrack (sfx_playTrack i 0) AnnouncementUserTriedEarly)
         | Some UserUnknown \<Rightarrow>
             (s\<lparr>userKey := UserUnknown, boxState := StateFilled\<rparr>,
              d @ playTrack (sfx_playTrack i 0) AnnouncementUnknownKey)))"

definition loop_StateReadyForFirstUse :: "globals \<Rightarrow> input \<Rightarrow> globals \<times> event list" where
  "loop_StateReadyForFirstUse s0 i =
     (let (s, d) = printState ''State: Ready for first use'' s0 in
      case readCard i of
        None \<Rightarrow> (s, d)
      | Some UserMaster \<Rightarrow>
          (s\<lparr>userKey := UserMaster, boxState := StateOpenedForChecking\<rparr>,
           d @ playTrack (sfx_playTrack i 0)
                 AnnouncementBoxOpenedForCheckAlreadyPreparedForFirstUse
             @ unlockLid @ [Delay 5000])
      | Some UserStandard \<Rightarrow>
          (s\<lparr>userKey := UserStandard, firstUse := False, lastDay := rtc_date i,
             boxState := StateOpenedForEmptiing\<rparr>,
           d @ playTrack (sfx_playTrack i 0) AnnouncementFirsUseExplanation
             @ [Delay 30000] @ unlockLid @ [Delay 5000])
      | Some UserUnknown \<Rightarrow>
          (s\<lparr>userKey := UserUnknown, boxState := StateReadyForFirstUse\<rparr>,
           d @ playTrack (sfx_playTrack i 0) AnnouncementUnknownKey))"

text \<open>
  The statements under \<^verbatim>\<open>case StateReadyForUse:\<close>. They run when \<^verbatim>\<open>boxState\<close> is
  \<^verbatim>\<open>StateReadyForUse\<close>, and also when control arrives from the case above, whose last
  statement is an \<^verbatim>\<open>if\<close> and not a \<^verbatim>\<open>break\<close>; the test of \<^verbatim>\<open>lastState\<close> is against
  whatever \<^verbatim>\<open>boxState\<close> is then.
\<close>

definition loop_StateReadyForUse :: "globals \<Rightarrow> input \<Rightarrow> globals \<times> event list" where
  "loop_StateReadyForUse s0 i =
     (let (s, d) = printState ''State: Ready for use'' s0 in
      case readCard i of
        None \<Rightarrow> (s, d)
      | Some UserMaster \<Rightarrow>
          (s\<lparr>userKey := UserMaster, boxState := StateOpenedForChecking\<rparr>,
           d @ playTrack (sfx_playTrack i 0) AnnouncementBoxOpenedForCheckAlreadyPrepared
             @ unlockLid @ [Delay 5000])
      | Some UserStandard \<Rightarrow>
          (s\<lparr>userKey := UserStandard, lastDay := rtc_date i,
             boxState := StateOpenedForEmptiing\<rparr>,
           d @ doDailyAnnouncement i @ unlockLid @ [Delay 5000])
      | Some UserUnknown \<Rightarrow>
          (s\<lparr>userKey := UserUnknown, boxState := StateReadyForUse\<rparr>,
           d @ playTrack (sfx_playTrack i 0) AnnouncementUnknownKey))"

text \<open>
  \<^verbatim>\<open>case StateOpenedForChecking:\<close> reads the lid switch anew in each of its three
  tests (reads 0, 1 and 2 of the cycle; the switch is the left operand of each
  \<^verbatim>\<open>&&\<close>). Each test that holds ends with \<^verbatim>\<open>break\<close>; when none holds, control runs
  on into the statements of \<^verbatim>\<open>case StateReadyForUse:\<close>.
\<close>

definition loop_StateOpenedForChecking :: "globals \<Rightarrow> input \<Rightarrow> globals \<times> event list" where
  "loop_StateOpenedForChecking s0 i =
     (let (s, d) = printState ''State: Openend for checking'' s0 in
      if lid_low i 0 \<and> firstUse s
      then (s\<lparr>boxState := StateReadyForFirstUse\<rparr>,
            d @ playTrack (sfx_playTrack i 0)
                  AnnouncementBoxClosedAfterCheckAlreadyPreparedForFirstUse
              @ lockLid)
      else if lid_low i 1 \<and> uint (rtc_date i) \<noteq> sint (lastDay s)
      then (s\<lparr>boxState := StateReadyForUse\<rparr>,
            d @ playTrack (sfx_playTrack i 0) AnnouncementBoxClosedAfterCheckAlreadyPrepared
              @ lockLid)
      else if lid_low i 2
      then (s\<lparr>boxState := StateFilled\<rparr>,
            d @ playTrack (sfx_playTrack i 0) AnnouncementBoxClosedAfterCheck @ lockLid)
      else (let (s', es) = loop_StateReadyForUse s i in (s', d @ es)))"

definition loop_StateOpenedForEmptiing :: "globals \<Rightarrow> input \<Rightarrow> globals \<times> event list" where
  "loop_StateOpenedForEmptiing s0 i =
     (let (s, d) = printState ''State: Openend for emptiing'' s0 in
      if lid_low i 0
      then (s\<lparr>blinking := False, boxState := StateEmpty\<rparr>,
            d @ playTrack (sfx_playTrack i 0) AnnouncementBoxClosed @ lockLid)
      else (s, d))"

definition loop_StateEmpty :: "globals \<Rightarrow> input \<Rightarrow> globals \<times> event list" where
  "loop_StateEmpty s0 i =
     (let (s, d) = printState ''State: Empty'' s0 in
      if rtc_date i = 24
      then (s\<lparr>boxState := StateOffSeason\<rparr>,
            d @ playTrack (sfx_playTrack i 0) AnnouncementLastDay)
      else
        (case readCard i of
           None \<Rightarrow> (s, d)
         | Some UserMaster \<Rightarrow>
             (s\<lparr>userKey := UserMaster, boxState := StateOpenedForFilling\<rparr>,
              d @ playTrack (sfx_playTrack i 0) AnnouncementBoxOpenedForFilling
                @ unlockLid @ [Delay 5000])
         | Some UserStandard \<Rightarrow>
             (s\<lparr>userKey := UserStandard, boxState := StateEmpty\<rparr>,
              d @ playTrack (sfx_playTrack i 0) AnnouncementUserTriedAgain)
         | Some UserUnknown \<Rightarrow>
             (s\<lparr>userKey := UserUnknown, boxState := StateEmpty\<rparr>,
              d @ playTrack (sfx_playTrack i 0) AnnouncementUnknownKey)))"

definition loop_StateOffSeason :: "globals \<Rightarrow> input \<Rightarrow> globals \<times> event list" where
  "loop_StateOffSeason s0 i =
     (let (s, d) = printState ''State: Off season'' s0 in
      case readCard i of
        None \<Rightarrow> (s, d)
      | Some UserMaster \<Rightarrow>
          (if rtc_month i = 12 \<and> rtc_date i = 1
           then (s\<lparr>userKey := UserMaster, firstUse := True,
                   boxState := StateOpenedForFilling\<rparr>,
                 d @ playTrack (sfx_playTrack i 0) AnnouncementBoxOpenedForFirstFilling
                   @ unlockLid @ [Delay 6000] @ [SerialPrintln ''First use''])
           else (s\<lparr>userKey := UserMaster, firstUse := False,
                   boxState := StateOpenedForFilling\<rparr>,
                 d @ playTrack (sfx_playTrack i 0) AnnouncementBoxOpenedForFirstFilling
                   @ unlockLid @ [Delay 6000] @ [SerialPrintln ''Skip first use'']))
      | Some UserStandard \<Rightarrow>
          (s\<lparr>userKey := UserStandard, boxState := StateOffSeason\<rparr>,
           d @ playTrack (sfx_playTrack i 0) AnnouncementUserTriedOffSeason)
      | Some UserUnknown \<Rightarrow>
          (s\<lparr>userKey := UserUnknown, boxState := StateOffSeason\<rparr>,
           d @ playTrack (sfx_playTrack i 0) AnnouncementUnknownKey))"

text \<open>The switch on \<^verbatim>\<open>boxState\<close>.\<close>

definition fsm :: "globals \<Rightarrow> input \<Rightarrow> globals \<times> event list" where
  "fsm s i =
     (case boxState s of
        StateOpenedForFilling \<Rightarrow> loop_StateOpenedForFilling s i
      | StateFilled \<Rightarrow> loop_StateFilled s i
      | StateReadyForFirstUse \<Rightarrow> loop_StateReadyForFirstUse s i
      | StateOpenedForChecking \<Rightarrow> loop_StateOpenedForChecking s i
      | StateReadyForUse \<Rightarrow> loop_StateReadyForUse s i
      | StateOpenedForEmptiing \<Rightarrow> loop_StateOpenedForEmptiing s i
      | StateEmpty \<Rightarrow> loop_StateEmpty s i
      | StateOffSeason \<Rightarrow> loop_StateOffSeason s i)"

text \<open>One call of \<^verbatim>\<open>loop()\<close>: the head, then the switch.\<close>

definition loop :: "globals \<Rightarrow> input \<Rightarrow> globals \<times> event list" where
  "loop s i = (let (s1, es1) = loop_head s i; (s2, es2) = fsm s1 i in (s2, es1 @ es2))"

text \<open>Running \<^verbatim>\<open>loop()\<close> over the inputs of successive cycles; the events accumulate.\<close>

fun run :: "globals \<Rightarrow> input list \<Rightarrow> globals \<times> event list" where
  "run s [] = (s, [])"
| "run s (i # is) =
     (let (s1, es1) = loop s i; (s2, es2) = run s1 is in (s2, es1 @ es2))"


section \<open>Concrete cycles\<close>

text \<open>
  Inputs and states used to run the sketch on concrete cycles. \<open>idle\<close> is a cycle at
  noon on 4 December with the lid open, no token at the reader, a working sound board
  and the byte \<^verbatim>\<open>0xA5\<close> everywhere outside the table of daily tracks; the other inputs
  are changes to it.
\<close>

definition idle :: input where
  "idle = \<lparr> rtc_minute = 0, rtc_hour = 12, rtc_date = 4, rtc_month = 12, rtc_sqw = False,
            lid_low = (\<lambda>k. False), picc_IsNewCardPresent = False,
            picc_ReadCardSerial = False, uid_size = 0, uid_uidByte = replicate 10 0,
            sfx_playTrack = (\<lambda>k. True), outside_DaylyAnnouncement = (\<lambda>idx. 0xA5) \<rparr>"

text \<open>A token with the given identifier is read; the buffer of the reader has 10 bytes.\<close>

definition token :: "byte list \<Rightarrow> input \<Rightarrow> input" where
  "token uid i = i\<lparr> picc_IsNewCardPresent := True, picc_ReadCardSerial := True,
                   uid_size := of_nat (length uid),
                   uid_uidByte := uid @ replicate (10 - length uid) 0 \<rparr>"

definition on_day :: "byte \<Rightarrow> byte \<Rightarrow> input \<Rightarrow> input" where
  "on_day m d i = i\<lparr> rtc_month := m, rtc_date := d \<rparr>"

definition at_hour :: "byte \<Rightarrow> input \<Rightarrow> input" where
  "at_hour h i = i\<lparr> rtc_hour := h \<rparr>"

definition lid_closed :: "input \<Rightarrow> input" where
  "lid_closed i = i\<lparr> lid_low := (\<lambda>k. True) \<rparr>"

text \<open>A four-byte identifier that is neither of the two keys.\<close>

definition strangerKey :: "byte list" where
  "strangerKey = [0xDE, 0xAD, 0xBE, 0xEF]"

text \<open>The globals at power-on with another state of the machine.\<close>

definition in_state :: "box_state \<Rightarrow> globals" where
  "in_state b = initial\<lparr> boxState := b \<rparr>"

text \<open>
  The box after the first-use explanation has been given or skipped, last made ready
  on the 3rd.
\<close>

definition daily :: "box_state \<Rightarrow> globals" where
  "daily b = initial\<lparr> boxState := b, firstUse := False, lastDay := 3 \<rparr>"

section \<open>Properties\<close>

subsection \<open>Auxiliary facts\<close>

lemmas track_defs =
  AnnouncementBoxFilled_def AnnouncementBoxOpenedForCheck_def
  AnnouncementBoxClosedAfterCheck_def
  AnnouncementBoxOpenedForCheckAlreadyPreparedForFirstUse_def
  AnnouncementBoxClosedAfterCheckAlreadyPreparedForFirstUse_def
  AnnouncementBoxOpenedForCheckAlreadyPrepared_def
  AnnouncementBoxClosedAfterCheckAlreadyPrepared_def
  AnnouncementFirsUseExplanation_def AnnouncementBoxClosed_def AnnouncementLastDay_def
  AnnouncementBoxOpenedForFilling_def AnnouncementBoxOpenedForFirstFilling_def
  AnnouncementUnknownKey_def AnnouncementUserTriedEarly_def AnnouncementUserTriedAgain_def
  AnnouncementUserTriedOffSeason_def DaylyEarlyMorningGreeting_def
  DaylyMorningGreeting_def DaylyGreeting_def

lemma memcmp_zero_iff:
  "memcmp a b n = Some 0 \<longleftrightarrow> n \<le> length a \<and> n \<le> length b \<and> take n a = take n b"
proof (induction a b n rule: memcmp.induct)
  fix a b :: byte and as bs :: "byte list" and n :: nat
  assume IH: "a = b \<Longrightarrow>
    (memcmp as bs n = Some 0) = (n \<le> length as \<and> n \<le> length bs \<and> take n as = take n bs)"
  show "(memcmp (a # as) (b # bs) (Suc n) = Some 0) =
    (Suc n \<le> length (a # as) \<and> Suc n \<le> length (b # bs)
      \<and> take (Suc n) (a # as) = take (Suc n) (b # bs))"
  proof (cases "a = b")
    case True
    with IH show ?thesis by simp
  next
    case False
    then have "uint a \<noteq> uint b" by (simp add: word_uint_eq_iff)
    with False show ?thesis by simp
  qed
qed simp_all

lemma memcmp_key7:
  "length key = 7 \<Longrightarrow> memcmp buf key 7 = Some 0 \<longleftrightarrow> take 7 buf = key"
  by (auto simp: memcmp_zero_iff)

lemma played_append: "played (xs @ ys) = played xs @ played ys"
  by (induction xs rule: played.induct) simp_all

lemma actions_append: "actions (xs @ ys) = actions xs @ actions ys"
  by (induction xs) simp_all

lemma played_playTrack: "played (playTrack ok t) = [t]"
  by (simp add: playTrack_def)

lemma actions_playTrack: "actions (playTrack ok t) = [SfxPlayTrack t]"
  by (simp add: playTrack_def)

lemma played_lockLid: "played lockLid = []" and played_unlockLid: "played unlockLid = []"
  by (simp_all add: lockLid_def unlockLid_def)

lemma actions_lockLid: "actions lockLid = lockLid" and actions_unlockLid: "actions unlockLid = unlockLid"
  by (simp_all add: lockLid_def unlockLid_def)

lemma printState_fields:
  "lastMinute (fst (printState m s)) = lastMinute s"
  "lastDay (fst (printState m s)) = lastDay s"
  "userKey (fst (printState m s)) = userKey s"
  "boxState (fst (printState m s)) = boxState s"
  "blinking (fst (printState m s)) = blinking s"
  "firstUse (fst (printState m s)) = firstUse s"
  "played (snd (printState m s)) = []"
  "actions (snd (printState m s)) = []"
  "lastState (fst (printState m s)) = Some (boxState s)"
  by (simp_all add: printState_def)

lemma loop_head_fields:
  "lastDay (fst (loop_head s i)) = lastDay s"
  "userKey (fst (loop_head s i)) = userKey s"
  "boxState (fst (loop_head s i)) = boxState s"
  "blinking (fst (loop_head s i)) = blinking s"
  "firstUse (fst (loop_head s i)) = firstUse s"
  "lastState (fst (loop_head s i)) = lastState s"
  "played (snd (loop_head s i)) = []"
  by (simp_all add: loop_head_def played_append split: if_splits)

lemma loop_eq:
  "loop s i = (fst (fsm (fst (loop_head s i)) i), snd (loop_head s i) @ snd (fsm (fst (loop_head s i)) i))"
  by (simp add: loop_def split_def Let_def)

lemmas case_defs = loop_eq fsm_def split_def Let_def printState_fields loop_head_fields
  played_append actions_append played_playTrack actions_playTrack played_lockLid played_unlockLid
  actions_lockLid actions_unlockLid

lemma actions_loop_head: "actions (snd (loop_head s i)) = [DigitalWriteLed (blinking s \<and> rtc_sqw i)]"
  by (simp add: loop_head_def actions_append split_def)

lemma played_doDailyAnnouncement:
  "played (doDailyAnnouncement i) =
     [if uint (rtc_hour i) > 5 \<and> uint (rtc_hour i) < 7 then DaylyEarlyMorningGreeting
      else if uint (rtc_hour i) > 5 \<and> uint (rtc_hour i) < 11 then DaylyMorningGreeting
      else DaylyGreeting,
      DaylyAnnouncement_read i (uint (rtc_date i) - 1)]"
  by (simp add: doDailyAnnouncement_def played_append played_playTrack)

lemma readCard_sfx: "readCard (i\<lparr>sfx_playTrack := f\<rparr>) = readCard i"
  by (simp add: readCard_def readRFIDKey_def)

lemma loop_head_sfx: "loop_head s (i\<lparr>sfx_playTrack := f\<rparr>) = loop_head s i"
  by (simp add: loop_head_def)

lemma DaylyAnnouncement_read_sfx:
  "DaylyAnnouncement_read (i\<lparr>sfx_playTrack := f\<rparr>) idx = DaylyAnnouncement_read i idx"
  by (simp add: DaylyAnnouncement_read_def split: option.splits)

lemma actions_doDailyAnnouncement:
  "actions (doDailyAnnouncement i) =
     [SfxPlayTrack (if uint (rtc_hour i) > 5 \<and> uint (rtc_hour i) < 7 then DaylyEarlyMorningGreeting
                    else if uint (rtc_hour i) > 5 \<and> uint (rtc_hour i) < 11 then DaylyMorningGreeting
                    else DaylyGreeting),
      Delay 5000,
      SfxPlayTrack (DaylyAnnouncement_read i (uint (rtc_date i) - 1))]"
  by (simp add: doDailyAnnouncement_def actions_append actions_playTrack)

lemma case_sfx:
  "fst (loop_StateOpenedForFilling s (i\<lparr>sfx_playTrack := f\<rparr>)) = fst (loop_StateOpenedForFilling s i)"
  "actions (snd (loop_StateOpenedForFilling s (i\<lparr>sfx_playTrack := f\<rparr>))) = actions (snd (loop_StateOpenedForFilling s i))"
  "fst (loop_StateFilled s (i\<lparr>sfx_playTrack := f\<rparr>)) = fst (loop_StateFilled s i)"
  "actions (snd (loop_StateFilled s (i\<lparr>sfx_playTrack := f\<rparr>))) = actions (snd (loop_StateFilled s i))"
  "fst (loop_StateReadyForFirstUse s (i\<lparr>sfx_playTrack := f\<rparr>)) = fst (loop_StateReadyForFirstUse s i)"
  "actions (snd (loop_StateReadyForFirstUse s (i\<lparr>sfx_playTrack := f\<rparr>))) = actions (snd (loop_StateReadyForFirstUse s i))"
  "fst (loop_StateReadyForUse s (i\<lparr>sfx_playTrack := f\<rparr>)) = fst (loop_StateReadyForUse s i)"
  "actions (snd (loop_StateReadyForUse s (i\<lparr>sfx_playTrack := f\<rparr>))) = actions (snd (loop_StateReadyForUse s i))"
  "fst (loop_StateOpenedForEmptiing s (i\<lparr>sfx_playTrack := f\<rparr>)) = fst (loop_StateOpenedForEmptiing s i)"
  "actions (snd (loop_StateOpenedForEmptiing s (i\<lparr>sfx_playTrack := f\<rparr>))) = actions (snd (loop_StateOpenedForEmptiing s i))"
  "fst (loop_StateEmpty s (i\<lparr>sfx_playTrack := f\<rparr>)) = fst (loop_StateEmpty s i)"
  "actions (snd (loop_StateEmpty s (i\<lparr>sfx_playTrack := f\<rparr>))) = actions (snd (loop_StateEmpty s i))"
  "fst (loop_StateOffSeason s (i\<lparr>sfx_playTrack := f\<rparr>)) = fst (loop_StateOffSeason s i)"
  "actions (snd (loop_StateOffSeason s (i\<lparr>sfx_playTrack := f\<rparr>))) = actions (snd (loop_StateOffSeason s i))"
  by (simp_all add: loop_StateOpenedForFilling_def loop_StateFilled_def loop_StateReadyForFirstUse_def
      loop_StateReadyForUse_def loop_StateOpenedForEmptiing_def loop_StateEmpty_def loop_StateOffSeason_def
      split_def Let_def readCard_sfx actions_append actions_playTrack actions_doDailyAnnouncement
      DaylyAnnouncement_read_sfx
      split: option.splits user.splits)

lemma checking_sfx:
  "fst (loop_StateOpenedForChecking s (i\<lparr>sfx_playTrack := f\<rparr>)) = fst (loop_StateOpenedForChecking s i)"
  "actions (snd (loop_StateOpenedForChecking s (i\<lparr>sfx_playTrack := f\<rparr>))) = actions (snd (loop_StateOpenedForChecking s i))"
  by (simp_all add: loop_StateOpenedForChecking_def split_def Let_def case_sfx actions_append actions_playTrack)

lemma fsm_sfx:
  "fst (fsm s (i\<lparr>sfx_playTrack := f\<rparr>)) = fst (fsm s i)"
  "actions (snd (fsm s (i\<lparr>sfx_playTrack := f\<rparr>))) = actions (snd (fsm s i))"
  by (simp_all add: fsm_def case_sfx checking_sfx split: box_state.splits)

lemma failure_lines_append: "failure_lines (xs @ ys) = failure_lines xs @ failure_lines ys"
  by (simp add: failure_lines_def)

lemma other_events_append: "other_events (xs @ ys) = other_events xs @ other_events ys"
  by (simp add: other_events_def)

lemma failure_lines_Cons:
  "failure_lines (e # es) = (if failure_line e then e # failure_lines es else failure_lines es)"
  by (simp add: failure_lines_def)

lemma other_events_Cons:
  "other_events (e # es) = (if failure_line e then other_events es else e # other_events es)"
  by (simp add: other_events_def)

lemma failure_lines_playTrack:
  "failure_lines (playTrack ok t) =
     (if ok then [] else [SerialPrint ''Failed to play track '', SerialPrintlnByte t])"
  by (simp add: playTrack_def failure_lines_def)

lemma other_events_playTrack: "other_events (playTrack ok t) = [SfxPlayTrack t]"
  by (simp add: playTrack_def other_events_def)

lemma failure_lines_quiet:
  "failure_lines lockLid = []" "failure_lines unlockLid = []"
  "failure_lines (snd (printState m s)) = []"
  "failure_lines (snd (loop_head s i)) = []"
  "failure_lines [Delay n] = []" "failure_lines [SerialPrintln msg] = []"
  "failure_lines [] = []"
  by (simp_all add: failure_lines_def lockLid_def unlockLid_def printState_def loop_head_def
      split_def)

lemma failure_lines_doDailyAnnouncement:
  "failure_lines (doDailyAnnouncement i) =
     failed_calls_report (sfx_playTrack i) 0 (played (doDailyAnnouncement i))"
  by (simp add: played_doDailyAnnouncement)
     (simp add: doDailyAnnouncement_def failure_lines_append failure_lines_playTrack
        failure_lines_quiet failure_lines_Cons)

lemmas report_simps = split_def Let_def failure_lines_append failure_lines_Cons failure_lines_playTrack
  failure_lines_quiet failure_lines_doDailyAnnouncement played_append played_playTrack
  played_lockLid played_unlockLid printState_fields

lemma case_report:
  "failure_lines (snd (loop_StateOpenedForFilling s i)) =
     failed_calls_report (sfx_playTrack i) 0 (played (snd (loop_StateOpenedForFilling s i)))"
  "failure_lines (snd (loop_StateFilled s i)) =
     failed_calls_report (sfx_playTrack i) 0 (played (snd (loop_StateFilled s i)))"
  "failure_lines (snd (loop_StateReadyForFirstUse s i)) =
     failed_calls_report (sfx_playTrack i) 0 (played (snd (loop_StateReadyForFirstUse s i)))"
  "failure_lines (snd (loop_StateReadyForUse s i)) =
     failed_calls_report (sfx_playTrack i) 0 (played (snd (loop_StateReadyForUse s i)))"
  "failure_lines (snd (loop_StateOpenedForEmptiing s i)) =
     failed_calls_report (sfx_playTrack i) 0 (played (snd (loop_StateOpenedForEmptiing s i)))"
  "failure_lines (snd (loop_StateEmpty s i)) =
     failed_calls_report (sfx_playTrack i) 0 (played (snd (loop_StateEmpty s i)))"
  "failure_lines (snd (loop_StateOffSeason s i)) =
     failed_calls_report (sfx_playTrack i) 0 (played (snd (loop_StateOffSeason s i)))"
  by (simp_all add: loop_StateOpenedForFilling_def loop_StateFilled_def
      loop_StateReadyForFirstUse_def loop_StateReadyForUse_def loop_StateOpenedForEmptiing_def
      loop_StateEmpty_def loop_StateOffSeason_def report_simps
      split: option.splits user.splits)

lemma checking_report:
  "failure_lines (snd (loop_StateOpenedForChecking s i)) =
     failed_calls_report (sfx_playTrack i) 0 (played (snd (loop_StateOpenedForChecking s i)))"
  by (simp add: loop_StateOpenedForChecking_def report_simps case_report)

lemma fsm_report:
  "failure_lines (snd (fsm s i)) = failed_calls_report (sfx_playTrack i) 0 (played (snd (fsm s i)))"
  by (simp add: fsm_def case_report checking_report split: box_state.splits)

lemma other_events_doDailyAnnouncement:
  "other_events (doDailyAnnouncement i) =
     [SfxPlayTrack (if uint (rtc_hour i) > 5 \<and> uint (rtc_hour i) < 7 then DaylyEarlyMorningGreeting
                    else if uint (rtc_hour i) > 5 \<and> uint (rtc_hour i) < 11 then DaylyMorningGreeting
                    else DaylyGreeting),
      Delay 5000,
      SfxPlayTrack (DaylyAnnouncement_read i (uint (rtc_date i) - 1))]"
  by (simp add: doDailyAnnouncement_def other_events_append other_events_playTrack
      other_events_Cons)

lemma case_other:
  "other_events (snd (loop_StateOpenedForFilling s (i\<lparr>sfx_playTrack := f\<rparr>))) = other_events (snd (loop_StateOpenedForFilling s i))"
  "other_events (snd (loop_StateFilled s (i\<lparr>sfx_playTrack := f\<rparr>))) = other_events (snd (loop_StateFilled s i))"
  "other_events (snd (loop_StateReadyForFirstUse s (i\<lparr>sfx_playTrack := f\<rparr>))) = other_events (snd (loop_StateReadyForFirstUse s i))"
  "other_events (snd (loop_StateReadyForUse s (i\<lparr>sfx_playTrack := f\<rparr>))) = other_events (snd (loop_StateReadyForUse s i))"
  "other_events (snd (loop_StateOpenedForEmptiing s (i\<lparr>sfx_playTrack := f\<rparr>))) = other_events (snd (loop_StateOpenedForEmptiing s i))"
  "other_events (snd (loop_StateEmpty s (i\<lparr>sfx_playTrack := f\<rparr>))) = other_events (snd (loop_StateEmpty s i))"
  "other_events (snd (loop_StateOffSeason s (i\<lparr>sfx_playTrack := f\<rparr>))) = other_events (snd (loop_StateOffSeason s i))"
  by (simp_all add: loop_StateOpenedForFilling_def loop_StateFilled_def loop_StateReadyForFirstUse_def
      loop_StateReadyForUse_def loop_StateOpenedForEmptiing_def loop_StateEmpty_def loop_StateOffSeason_def
      split_def Let_def readCard_sfx other_events_append other_events_playTrack
      other_events_Cons other_events_doDailyAnnouncement DaylyAnnouncement_read_sfx
      split: option.splits user.splits)

lemma checking_other:
  "other_events (snd (loop_StateOpenedForChecking s (i\<lparr>sfx_playTrack := f\<rparr>))) = other_events (snd (loop_StateOpenedForChecking s i))"
  by (simp add: loop_StateOpenedForChecking_def split_def Let_def case_sfx case_other
      other_events_append other_events_Cons other_events_playTrack)

lemma fsm_other:
  "other_events (snd (fsm s (i\<lparr>sfx_playTrack := f\<rparr>))) = other_events (snd (fsm s i))"
  by (simp add: fsm_def case_other checking_other split: box_state.splits)

lemma readCard_token_master: "readCard (token RFIDMasterKey i) = Some UserMaster"
  by (simp add: readCard_def token_def readRFIDKey_def memcmp_key7 RFIDMasterKey_def)

lemma readCard_token_standard: "readCard (token RFIDStandardKey i) = Some UserStandard"
  by (simp add: readCard_def token_def readRFIDKey_def memcmp_key7 RFIDMasterKey_def
      RFIDStandardKey_def)

lemma readCard_token_stranger: "readCard (token strangerKey i) = Some UserUnknown"
  by (simp add: readCard_def token_def readRFIDKey_def RFIDMasterKey_def RFIDStandardKey_def
      strangerKey_def)

lemma readCard_idle: "readCard idle = None"
  by (simp add: readCard_def idle_def)

lemma token_fields:
  "outside_DaylyAnnouncement (token uid i) = outside_DaylyAnnouncement i"
  "sfx_playTrack (token uid i) = sfx_playTrack i"
  "rtc_hour (token uid i) = rtc_hour i"
  "rtc_date (token uid i) = rtc_date i"
  "rtc_month (token uid i) = rtc_month i"
  "rtc_sqw (token uid i) = rtc_sqw i"
  "lid_low (token uid i) = lid_low i"
  by (simp_all add: token_def)

lemma on_day_fields:
  "outside_DaylyAnnouncement (on_day m d i) = outside_DaylyAnnouncement i"
  "sfx_playTrack (on_day m d i) = sfx_playTrack i"
  "rtc_hour (on_day m d i) = rtc_hour i"
  "rtc_date (on_day m d i) = d"
  "rtc_month (on_day m d i) = m"
  "rtc_sqw (on_day m d i) = rtc_sqw i"
  "lid_low (on_day m d i) = lid_low i"
  "readCard (on_day m d i) = readCard i"
  by (simp_all add: on_day_def readCard_def readRFIDKey_def)

lemma lid_closed_fields:
  "rtc_hour (lid_closed i) = rtc_hour i"
  "rtc_date (lid_closed i) = rtc_date i"
  "rtc_month (lid_closed i) = rtc_month i"
  "rtc_sqw (lid_closed i) = rtc_sqw i"
  "lid_low (lid_closed i) k"
  "readCard (lid_closed i) = readCard i"
  by (simp_all add: lid_closed_def readCard_def readRFIDKey_def)

lemma at_hour_fields:
  "rtc_hour (at_hour h i) = h"
  "rtc_date (at_hour h i) = rtc_date i"
  "rtc_month (at_hour h i) = rtc_month i"
  "readCard (at_hour h i) = readCard i"
  by (simp_all add: at_hour_def readCard_def readRFIDKey_def)

lemma idle_fields:
  "outside_DaylyAnnouncement idle idx = 0xA5" "sfx_playTrack idle k"
  "rtc_hour idle = 12" "rtc_date idle = 4" "rtc_month idle = 12" "\<not> rtc_sqw idle"
  "\<not> lid_low idle k"
  by (simp_all add: idle_def)

lemma in_state_fields:
  "boxState (in_state b) = b" "lastDay (in_state b) = - 1" "firstUse (in_state b)"
  "\<not> blinking (in_state b)" "userKey (in_state b) = UserUnknown"
  by (simp_all add: in_state_def initial_def)

lemma daily_fields:
  "boxState (daily b) = b" "lastDay (daily b) = 3" "\<not> firstUse (daily b)"
  "\<not> blinking (daily b)" "userKey (daily b) = UserUnknown"
  by (simp_all add: daily_def initial_def)

lemmas cycle_simps = token_fields on_day_fields lid_closed_fields at_hour_fields idle_fields
  in_state_fields
  daily_fields readCard_token_master readCard_token_standard readCard_token_stranger
  readCard_idle

subsection \<open>State Filled: a new day in December\<close>

text \<open>
  C1, with \<open>lastDay\<close> as the sketch assigns it. In state Filled, when the month is 12 and the date differs from
  \<open>lastDay\<close>, the cycle sets \<open>blinking\<close> and moves to ReadyForFirstUse when
  \<open>firstUse\<close> is set and to ReadyForUse otherwise; no token is handled in that cycle
  (\<open>userKey\<close> is untouched and nothing is played). \<open>lastDay\<close> becomes the date of the
  clock only on the way to ReadyForFirstUse: on the way to ReadyForUse it keeps its
  value, and is set later, when the Standard token opens the box.
\<close>

theorem filled_new_december_day:
  assumes "boxState s = StateFilled" and "rtc_month i = 12"
    and "uint (rtc_date i) \<noteq> sint (lastDay s)"
  shows "blinking (fst (loop s i))
    \<and> boxState (fst (loop s i)) = (if firstUse s then StateReadyForFirstUse else StateReadyForUse)
    \<and> lastDay (fst (loop s i)) = (if firstUse s then rtc_date i else lastDay s)
    \<and> firstUse (fst (loop s i)) = firstUse s
    \<and> userKey (fst (loop s i)) = userKey s
    \<and> played (snd (loop s i)) = []"
  using assms by (simp add: case_defs loop_StateFilled_def)

theorem filled_new_december_day_witness:
  "boxState (in_state StateFilled) = StateFilled \<and> rtc_month idle = 12
   \<and> uint (rtc_date idle) \<noteq> sint (lastDay (in_state StateFilled))
   \<and> blinking (fst (loop (in_state StateFilled) idle))
   \<and> boxState (fst (loop (in_state StateFilled) idle)) = StateReadyForFirstUse
   \<and> lastDay (fst (loop (in_state StateFilled) idle)) = 4"
  using filled_new_december_day [of "in_state StateFilled" idle]
  by (simp add: cycle_simps)

text \<open>
  C1 read with \<open>lastDay\<close> set to the current date in both branches does not hold.
  With \<open>firstUse\<close> cleared, \<open>lastDay = 3\<close> and the clock at 4 December, the cycle moves
  to ReadyForUse and \<open>lastDay\<close> is still 3.
\<close>

theorem filled_new_december_day_counterexample:
  "boxState (daily StateFilled) = StateFilled \<and> rtc_month idle = 12
   \<and> uint (rtc_date idle) \<noteq> sint (lastDay (daily StateFilled))
   \<and> boxState (fst (loop (daily StateFilled) idle)) = StateReadyForUse
   \<and> lastDay (fst (loop (daily StateFilled) idle)) = 3
   \<and> lastDay (fst (loop (daily StateFilled) idle)) \<noteq> rtc_date idle"
  by (simp add: case_defs loop_StateFilled_def cycle_simps)

text \<open>
  Why \<open>lastDay\<close> waits on the way to ReadyForUse: when the Master token opens the box
  in ReadyForUse and the lid is closed again, the test \<^verbatim>\<open>rtc.date() != lastDay\<close> of
  OpenedForChecking is what brings the machine back to ReadyForUse.
\<close>

lemma check_in_ready_for_use_returns_there:
  "boxState (fst (run (daily StateFilled) [idle])) = StateReadyForUse
   \<and> boxState (fst (run (daily StateFilled) [idle, token RFIDMasterKey idle]))
       = StateOpenedForChecking
   \<and> boxState (fst (run (daily StateFilled) [idle, token RFIDMasterKey idle, lid_closed idle]))
       = StateReadyForUse"
  by (simp add: case_defs loop_StateFilled_def loop_StateReadyForUse_def
      loop_StateOpenedForChecking_def cycle_simps)

subsection \<open>Tokens of unknown class\<close>

text \<open>
  C2, state by state. Take a cycle whose token classifies as Unknown.
  In OffSeason, ReadyForFirstUse and ReadyForUse, in Filled unless the month is 12 and
  the date differs from \<open>lastDay\<close>, and in Empty unless the date is 24, the cycle leaves
  \<open>boxState\<close>, \<open>blinking\<close>, \<open>lastDay\<close> and \<open>firstUse\<close> as they were and plays exactly one
  track, the unknown-key announcement.
  In OpenedForChecking with the lid open it leaves \<open>blinking\<close>, \<open>lastDay\<close> and
  \<open>firstUse\<close> as they were and plays exactly the unknown-key announcement.
  In OpenedForFilling and OpenedForEmptying the reader is not polled: the token is not
  classified (\<open>userKey\<close> is untouched), the unknown-key announcement is not played, and
  with the lid open nothing changes and nothing is played.
\<close>

theorem unknown_token_frame:
  assumes "readCard i = Some UserUnknown"
  shows "((boxState s = StateOffSeason \<or> boxState s = StateReadyForFirstUse
           \<or> boxState s = StateReadyForUse
           \<or> (boxState s = StateFilled
                \<and> \<not> (rtc_month i = 12 \<and> uint (rtc_date i) \<noteq> sint (lastDay s)))
           \<or> (boxState s = StateEmpty \<and> rtc_date i \<noteq> 24))
          \<longrightarrow> boxState (fst (loop s i)) = boxState s
            \<and> blinking (fst (loop s i)) = blinking s
            \<and> lastDay (fst (loop s i)) = lastDay s
            \<and> firstUse (fst (loop s i)) = firstUse s
            \<and> played (snd (loop s i)) = [AnnouncementUnknownKey])
    \<and> (boxState s = StateOpenedForChecking
          \<and> \<not> lid_low i 0 \<and> \<not> lid_low i 1 \<and> \<not> lid_low i 2
          \<longrightarrow> blinking (fst (loop s i)) = blinking s
            \<and> lastDay (fst (loop s i)) = lastDay s
            \<and> firstUse (fst (loop s i)) = firstUse s
            \<and> played (snd (loop s i)) = [AnnouncementUnknownKey])
    \<and> (boxState s = StateOpenedForFilling \<or> boxState s = StateOpenedForEmptiing
          \<longrightarrow> userKey (fst (loop s i)) = userKey s
            \<and> AnnouncementUnknownKey \<notin> set (played (snd (loop s i)))
            \<and> (\<not> lid_low i 0
                 \<longrightarrow> boxState (fst (loop s i)) = boxState s
                   \<and> blinking (fst (loop s i)) = blinking s
                   \<and> lastDay (fst (loop s i)) = lastDay s
                   \<and> firstUse (fst (loop s i)) = firstUse s
                   \<and> played (snd (loop s i)) = []))"
  using assms
  by (auto simp: case_defs loop_StateOffSeason_def loop_StateReadyForFirstUse_def
      loop_StateReadyForUse_def loop_StateFilled_def loop_StateEmpty_def
      loop_StateOpenedForChecking_def loop_StateOpenedForFilling_def
      loop_StateOpenedForEmptiing_def track_defs)

theorem unknown_token_frame_witness:
  "readCard (token strangerKey idle) = Some UserUnknown
   \<and> boxState (fst (loop (in_state StateOffSeason) (token strangerKey idle))) = StateOffSeason
   \<and> played (snd (loop (in_state StateOffSeason) (token strangerKey idle)))
       = [AnnouncementUnknownKey]
   \<and> played (snd (loop (in_state StateOpenedForChecking) (token strangerKey idle)))
       = [AnnouncementUnknownKey]
   \<and> played (snd (loop (in_state StateOpenedForEmptiing) (token strangerKey idle))) = []"
  using unknown_token_frame [of "token strangerKey idle" "in_state StateOffSeason"]
    unknown_token_frame [of "token strangerKey idle" "in_state StateOpenedForChecking"]
    unknown_token_frame [of "token strangerKey idle" "in_state StateOpenedForEmptiing"]
  by (simp add: cycle_simps)

text \<open>
  C2 read over every state does not hold. In OpenedForFilling with the lid open,
  a cycle with a token of unknown class plays nothing at all; in Filled on a new day in
  December and in Empty on the 24th the state changes and the unknown-key announcement
  is not played.
\<close>

theorem unknown_token_frame_counterexample:
  "readCard (token strangerKey idle) = Some UserUnknown
   \<and> played (snd (loop (in_state StateOpenedForFilling) (token strangerKey idle))) = []
   \<and> boxState (fst (loop (in_state StateFilled) (token strangerKey idle)))
       = StateReadyForFirstUse
   \<and> played (snd (loop (in_state StateFilled) (token strangerKey idle))) = []
   \<and> boxState (fst (loop (in_state StateEmpty) (on_day 12 24 (token strangerKey idle))))
       = StateOffSeason
   \<and> played (snd (loop (in_state StateEmpty) (on_day 12 24 (token strangerKey idle))))
       = [AnnouncementLastDay]"
  by (simp add: case_defs loop_StateOpenedForFilling_def loop_StateFilled_def
      loop_StateEmpty_def cycle_simps)

text \<open>
  In OpenedForChecking with the lid open, the statements of ReadyForUse that handle a
  token of unknown class assign \<^verbatim>\<open>boxState = StateReadyForUse\<close>: the machine leaves
  OpenedForChecking while the box is open and unlocked.
\<close>

lemma checking_unknown_token_moves_to_ready:
  "boxState (fst (loop (in_state StateOpenedForChecking) (token strangerKey idle)))
     = StateReadyForUse"
  by (simp add: case_defs loop_StateOpenedForChecking_def loop_StateReadyForUse_def
      cycle_simps)

subsection \<open>State OpenedForChecking\<close>

text \<open>
  C3. In state OpenedForChecking, when every read of the lid switch in the cycle finds
  the lid open, the cycle runs the statements of ReadyForUse: with no token the state
  stays OpenedForChecking and nothing is played; with a token, the resulting
  \<open>boxState\<close>, \<open>userKey\<close>, \<open>lastDay\<close>, \<open>firstUse\<close>, \<open>blinking\<close> and the commands sent to
  the hardware are those of the same cycle started in ReadyForUse. For a Standard token
  that is the Daily Announcement, \<open>lastDay\<close> set to the date of the clock, the unlock
  and the move to OpenedForEmptying.
\<close>

theorem checking_falls_into_ready_for_use:
  assumes "boxState s = StateOpenedForChecking"
    and "\<not> lid_low i 0" and "\<not> lid_low i 1" and "\<not> lid_low i 2"
  shows "(readCard i = None \<longrightarrow>
            boxState (fst (loop s i)) = StateOpenedForChecking \<and> played (snd (loop s i)) = [])
    \<and> (readCard i \<noteq> None \<longrightarrow>
            boxState (fst (loop s i)) = boxState (fst (loop (s\<lparr>boxState := StateReadyForUse\<rparr>) i))
          \<and> userKey (fst (loop s i)) = userKey (fst (loop (s\<lparr>boxState := StateReadyForUse\<rparr>) i))
          \<and> lastDay (fst (loop s i)) = lastDay (fst (loop (s\<lparr>boxState := StateReadyForUse\<rparr>) i))
          \<and> firstUse (fst (loop s i)) = firstUse (fst (loop (s\<lparr>boxState := StateReadyForUse\<rparr>) i))
          \<and> blinking (fst (loop s i)) = blinking (fst (loop (s\<lparr>boxState := StateReadyForUse\<rparr>) i))
          \<and> actions (snd (loop s i)) = actions (snd (loop (s\<lparr>boxState := StateReadyForUse\<rparr>) i)))
    \<and> (readCard i = Some UserStandard \<longrightarrow>
            boxState (fst (loop s i)) = StateOpenedForEmptiing
          \<and> lastDay (fst (loop s i)) = rtc_date i
          \<and> actions (snd (loop s i)) =
              DigitalWriteLed (blinking s \<and> rtc_sqw i) # actions (doDailyAnnouncement i)
              @ unlockLid @ [Delay 5000])"
  using assms
  by (auto simp: case_defs actions_loop_head loop_StateOpenedForChecking_def loop_StateReadyForUse_def
      loop_head_def printState_def split: user.splits)

theorem checking_falls_into_ready_for_use_witness:
  "boxState (daily StateOpenedForChecking) = StateOpenedForChecking
   \<and> \<not> lid_low (token RFIDStandardKey idle) 0
   \<and> \<not> lid_low (token RFIDStandardKey idle) 1
   \<and> \<not> lid_low (token RFIDStandardKey idle) 2
   \<and> readCard (token RFIDStandardKey idle) = Some UserStandard
   \<and> boxState (fst (loop (daily StateOpenedForChecking) (token RFIDStandardKey idle)))
       = StateOpenedForEmptiing
   \<and> lastDay (fst (loop (daily StateOpenedForChecking) (token RFIDStandardKey idle))) = 4
   \<and> readCard idle = None
   \<and> boxState (fst (loop (daily StateOpenedForChecking) idle)) = StateOpenedForChecking"
  using checking_falls_into_ready_for_use
    [of "daily StateOpenedForChecking" "token RFIDStandardKey idle"]
    checking_falls_into_ready_for_use [of "daily StateOpenedForChecking" idle]
  by (auto simp: cycle_simps)

text \<open>
  C6. In state OpenedForChecking, when every read of the lid switch in the cycle finds
  the lid closed: with \<open>firstUse\<close> set the cycle plays
  ClosedAfterCheckAlreadyPreparedForFirstUse, locks and goes to ReadyForFirstUse;
  otherwise, with the date different from \<open>lastDay\<close>, it plays
  ClosedAfterCheckAlreadyPrepared, locks and goes to ReadyForUse; otherwise (\<open>firstUse\<close>
  cleared and the date equal to \<open>lastDay\<close>) it plays ClosedAfterCheck, locks and goes
  to Filled. \<open>lastDay\<close>, \<open>firstUse\<close> and \<open>blinking\<close> keep their values.
\<close>

theorem checking_lid_closed_priority:
  assumes "boxState s = StateOpenedForChecking"
    and "lid_low i 0" and "lid_low i 1" and "lid_low i 2"
  shows "(firstUse s \<longrightarrow>
            boxState (fst (loop s i)) = StateReadyForFirstUse
          \<and> actions (snd (loop s i)) =
              DigitalWriteLed (blinking s \<and> rtc_sqw i)
              # SfxPlayTrack AnnouncementBoxClosedAfterCheckAlreadyPreparedForFirstUse # lockLid)
    \<and> (\<not> firstUse s \<and> uint (rtc_date i) \<noteq> sint (lastDay s) \<longrightarrow>
            boxState (fst (loop s i)) = StateReadyForUse
          \<and> actions (snd (loop s i)) =
              DigitalWriteLed (blinking s \<and> rtc_sqw i)
              # SfxPlayTrack AnnouncementBoxClosedAfterCheckAlreadyPrepared # lockLid)
    \<and> (\<not> firstUse s \<and> uint (rtc_date i) = sint (lastDay s) \<longrightarrow>
            boxState (fst (loop s i)) = StateFilled
          \<and> actions (snd (loop s i)) =
              DigitalWriteLed (blinking s \<and> rtc_sqw i)
              # SfxPlayTrack AnnouncementBoxClosedAfterCheck # lockLid)
    \<and> lastDay (fst (loop s i)) = lastDay s
    \<and> firstUse (fst (loop s i)) = firstUse s
    \<and> blinking (fst (loop s i)) = blinking s"
  using assms by (simp add: case_defs actions_loop_head loop_StateOpenedForChecking_def)

theorem checking_lid_closed_priority_witness:
  "boxState (daily StateOpenedForChecking) = StateOpenedForChecking
   \<and> lid_low (lid_closed (on_day 12 3 idle)) 0
   \<and> lid_low (lid_closed (on_day 12 3 idle)) 1
   \<and> lid_low (lid_closed (on_day 12 3 idle)) 2
   \<and> \<not> firstUse (daily StateOpenedForChecking)
   \<and> uint (rtc_date (lid_closed (on_day 12 3 idle))) = sint (lastDay (daily StateOpenedForChecking))
   \<and> boxState (fst (loop (daily StateOpenedForChecking) (lid_closed (on_day 12 3 idle))))
       = StateFilled
   \<and> uint (rtc_date (lid_closed idle)) \<noteq> sint (lastDay (daily StateOpenedForChecking))
   \<and> boxState (fst (loop (daily StateOpenedForChecking) (lid_closed idle))) = StateReadyForUse
   \<and> boxState (in_state StateOpenedForChecking) = StateOpenedForChecking
   \<and> firstUse (in_state StateOpenedForChecking)
   \<and> boxState (fst (loop (in_state StateOpenedForChecking) (lid_closed idle)))
       = StateReadyForFirstUse"
  using checking_lid_closed_priority
    [of "daily StateOpenedForChecking" "lid_closed (on_day 12 3 idle)"]
    checking_lid_closed_priority [of "daily StateOpenedForChecking" "lid_closed idle"]
    checking_lid_closed_priority [of "in_state StateOpenedForChecking" "lid_closed idle"]
  by (simp add: cycle_simps)

subsection \<open>State Empty on the 24th\<close>

text \<open>
  C4. In state Empty, on a cycle where the date is 24, the cycle plays the LastDay
  announcement and moves to OffSeason whatever the reader holds: no token is classified
  (\<open>userKey\<close> is untouched), LastDay is the only track played, the lock is not moved,
  and \<open>lastDay\<close>, \<open>firstUse\<close> and \<open>blinking\<close> keep their values.
\<close>

theorem empty_on_24th_ends_season:
  assumes "boxState s = StateEmpty" and "rtc_date i = 24"
  shows "boxState (fst (loop s i)) = StateOffSeason
    \<and> played (snd (loop s i)) = [AnnouncementLastDay]
    \<and> actions (snd (loop s i)) =
        [DigitalWriteLed (blinking s \<and> rtc_sqw i), SfxPlayTrack AnnouncementLastDay]
    \<and> userKey (fst (loop s i)) = userKey s
    \<and> lastDay (fst (loop s i)) = lastDay s
    \<and> firstUse (fst (loop s i)) = firstUse s
    \<and> blinking (fst (loop s i)) = blinking s"
  using assms by (simp add: case_defs actions_loop_head loop_StateEmpty_def)

theorem empty_on_24th_ends_season_witness:
  "boxState (daily StateEmpty) = StateEmpty
   \<and> rtc_date (on_day 12 24 (token RFIDMasterKey idle)) = 24
   \<and> readCard (on_day 12 24 (token RFIDMasterKey idle)) = Some UserMaster
   \<and> boxState (fst (loop (daily StateEmpty) (on_day 12 24 (token RFIDMasterKey idle))))
       = StateOffSeason
   \<and> played (snd (loop (daily StateEmpty) (on_day 12 24 (token RFIDMasterKey idle))))
       = [AnnouncementLastDay]
   \<and> userKey (fst (loop (daily StateEmpty) (on_day 12 24 (token RFIDMasterKey idle))))
       = UserUnknown"
  using empty_on_24th_ends_season
    [of "daily StateEmpty" "on_day 12 24 (token RFIDMasterKey idle)"]
  by (simp add: cycle_simps)

subsection \<open>State OffSeason and the Master token\<close>

text \<open>
  C5. In state OffSeason a Master token moves the machine to OpenedForFilling, plays
  the OpenedForFirstFilling announcement and unlocks; afterwards \<open>firstUse\<close> is true
  exactly when the month is 12 and the date is 1.
\<close>

theorem off_season_master:
  assumes "boxState s = StateOffSeason" and "readCard i = Some UserMaster"
  shows "boxState (fst (loop s i)) = StateOpenedForFilling
    \<and> firstUse (fst (loop s i)) = (rtc_month i = 12 \<and> rtc_date i = 1)
    \<and> played (snd (loop s i)) = [AnnouncementBoxOpenedForFirstFilling]
    \<and> actions (snd (loop s i)) =
        [DigitalWriteLed (blinking s \<and> rtc_sqw i), SfxPlayTrack AnnouncementBoxOpenedForFirstFilling]
        @ unlockLid @ [Delay 6000]"
  using assms by (simp add: case_defs actions_loop_head loop_StateOffSeason_def)

theorem off_season_master_witness:
  "boxState (daily StateOffSeason) = StateOffSeason
   \<and> readCard (on_day 12 1 (token RFIDMasterKey idle)) = Some UserMaster
   \<and> firstUse (fst (loop (daily StateOffSeason) (on_day 12 1 (token RFIDMasterKey idle))))
   \<and> boxState (in_state StateOffSeason) = StateOffSeason
   \<and> readCard (on_day 11 1 (token RFIDMasterKey idle)) = Some UserMaster
   \<and> \<not> firstUse (fst (loop (in_state StateOffSeason) (on_day 11 1 (token RFIDMasterKey idle))))
   \<and> boxState (fst (loop (in_state StateOffSeason) (on_day 11 1 (token RFIDMasterKey idle))))
       = StateOpenedForFilling"
  using off_season_master [of "daily StateOffSeason" "on_day 12 1 (token RFIDMasterKey idle)"]
    off_season_master [of "in_state StateOffSeason" "on_day 11 1 (token RFIDMasterKey idle)"]
  by (simp add: cycle_simps)

subsection \<open>The Daily Announcement\<close>

text \<open>
  C7. On a Standard token in ReadyForUse, the first track played is the greeting,
  chosen by guards tried in order: EarlyMorning at hour 6, Morning at hours 7 to 10,
  Generic at every other hour. For a date from 1 to 24 the second and last track played
  is entry \<open>date - 1\<close> (counted from 0) of the table \<^verbatim>\<open>DaylyAnnouncement\<close>, which has
  exactly 24 entries: entry 4 on the 5th, entry 23 on the 24th.
\<close>

theorem daily_announcement_selection:
  assumes "boxState s = StateReadyForUse" and "readCard i = Some UserStandard"
  shows "take 1 (played (snd (loop s i))) =
          [if uint (rtc_hour i) = 6 then DaylyEarlyMorningGreeting
           else if 7 \<le> uint (rtc_hour i) \<and> uint (rtc_hour i) \<le> 10 then DaylyMorningGreeting
           else DaylyGreeting]
    \<and> (1 \<le> uint (rtc_date i) \<and> uint (rtc_date i) \<le> 24 \<longrightarrow>
          drop 1 (played (snd (loop s i))) = [DaylyAnnouncement ! nat (uint (rtc_date i) - 1)])
    \<and> length DaylyAnnouncement = 24
    \<and> (rtc_date i = 5 \<longrightarrow> drop 1 (played (snd (loop s i))) = [DaylyAnnouncement ! 4])
    \<and> (rtc_date i = 24 \<longrightarrow> drop 1 (played (snd (loop s i))) = [DaylyAnnouncement ! 23])"
proof -
  have len: "length DaylyAnnouncement = 24"
    by (simp add: DaylyAnnouncement_def)
  have pl: "played (snd (loop s i)) = played (doDailyAnnouncement i)"
    using assms by (simp add: case_defs loop_StateReadyForUse_def)
  have g: "take 1 (played (doDailyAnnouncement i)) =
          [if uint (rtc_hour i) = 6 then DaylyEarlyMorningGreeting
           else if 7 \<le> uint (rtc_hour i) \<and> uint (rtc_hour i) \<le> 10 then DaylyMorningGreeting
           else DaylyGreeting]"
    by (auto simp: played_doDailyAnnouncement)
  have d: "1 \<le> uint (rtc_date i) \<and> uint (rtc_date i) \<le> 24 \<Longrightarrow>
      drop 1 (played (doDailyAnnouncement i)) = [DaylyAnnouncement ! nat (uint (rtc_date i) - 1)]"
    by (simp add: played_doDailyAnnouncement DaylyAnnouncement_read_def
        DaylyAnnouncement_at_def len)
  have d5: "rtc_date i = 5 \<Longrightarrow> drop 1 (played (doDailyAnnouncement i)) = [DaylyAnnouncement ! 4]"
    by (simp add: played_doDailyAnnouncement DaylyAnnouncement_read_def
        DaylyAnnouncement_at_def len)
  have d24: "rtc_date i = 24 \<Longrightarrow> drop 1 (played (doDailyAnnouncement i)) = [DaylyAnnouncement ! 23]"
    by (simp add: played_doDailyAnnouncement DaylyAnnouncement_read_def
        DaylyAnnouncement_at_def len)
  show ?thesis
    using g d d5 d24 len unfolding pl by blast
qed

theorem daily_announcement_selection_witness:
  "boxState (daily StateReadyForUse) = StateReadyForUse
   \<and> readCard (on_day 12 5 (token RFIDStandardKey idle)) = Some UserStandard
   \<and> rtc_date (on_day 12 5 (token RFIDStandardKey idle)) = 5
   \<and> played (snd (loop (daily StateReadyForUse) (on_day 12 5 (token RFIDStandardKey idle))))
       = [DaylyGreeting, 23]
   \<and> readCard (at_hour 6 (on_day 12 24 (token RFIDStandardKey idle))) = Some UserStandard
   \<and> played (snd (loop (daily StateReadyForUse)
                  (at_hour 6 (on_day 12 24 (token RFIDStandardKey idle)))))
       = [DaylyEarlyMorningGreeting, 42]
   \<and> played (snd (loop (daily StateReadyForUse)
                  (at_hour 7 (on_day 12 24 (token RFIDStandardKey idle)))))
       = [DaylyMorningGreeting, 42]"
proof -
  have split: "xs = take 1 xs @ drop 1 xs" for xs :: "byte list"
    by simp
  show ?thesis
    using daily_announcement_selection
        [of "daily StateReadyForUse" "on_day 12 5 (token RFIDStandardKey idle)"]
      daily_announcement_selection
        [of "daily StateReadyForUse" "at_hour 6 (on_day 12 24 (token RFIDStandardKey idle))"]
      daily_announcement_selection
        [of "daily StateReadyForUse" "at_hour 7 (on_day 12 24 (token RFIDStandardKey idle))"]
      split [of "played (snd (loop (daily StateReadyForUse)
                  (on_day 12 5 (token RFIDStandardKey idle))))"]
      split [of "played (snd (loop (daily StateReadyForUse)
                  (at_hour 6 (on_day 12 24 (token RFIDStandardKey idle)))))"]
      split [of "played (snd (loop (daily StateReadyForUse)
                  (at_hour 7 (on_day 12 24 (token RFIDStandardKey idle)))))"]
    by (simp add: cycle_simps DaylyAnnouncement_def)
qed

text \<open>
  C8. The read \<^verbatim>\<open>DaylyAnnouncement[date - 1]\<close> is inside the 24-entry table exactly
  when the date is from 1 to 24. For a date from 25 to 31 the index is at or past the
  length of the table, and a Standard token in ReadyForUse on such a date makes the
  cycle hand to the sound board, after the greeting, the byte found outside the table
  at that index. ReadyForUse is entered from Filled, with \<open>firstUse\<close> cleared, on any
  day of December whose date differs from \<open>lastDay\<close>, so also on the 25th to the 31st.
\<close>

theorem daily_track_index_bounds:
  "(DaylyAnnouncement_at (uint (rtc_date i) - 1) \<noteq> None
      \<longleftrightarrow> 1 \<le> uint (rtc_date i) \<and> uint (rtc_date i) \<le> 24)
   \<and> (25 \<le> uint (rtc_date i) \<and> uint (rtc_date i) \<le> 31
        \<longrightarrow> int (length DaylyAnnouncement) \<le> uint (rtc_date i) - 1)
   \<and> (boxState s = StateReadyForUse \<and> readCard i = Some UserStandard
        \<and> 25 \<le> uint (rtc_date i) \<and> uint (rtc_date i) \<le> 31
        \<longrightarrow> DaylyAnnouncement_at (uint (rtc_date i) - 1) = None
          \<and> drop 1 (played (snd (loop s i)))
              = [outside_DaylyAnnouncement i (uint (rtc_date i) - 1)])
   \<and> (boxState s = StateFilled \<and> \<not> firstUse s \<and> rtc_month i = 12
        \<and> uint (rtc_date i) \<noteq> sint (lastDay s)
        \<longrightarrow> boxState (fst (loop s i)) = StateReadyForUse)"
proof -
  have len: "length DaylyAnnouncement = 24"
    by (simp add: DaylyAnnouncement_def)
  have a: "DaylyAnnouncement_at (uint (rtc_date i) - 1) \<noteq> None
      \<longleftrightarrow> 1 \<le> uint (rtc_date i) \<and> uint (rtc_date i) \<le> 24"
    by (auto simp: DaylyAnnouncement_at_def len)
  have b: "25 \<le> uint (rtc_date i) \<and> uint (rtc_date i) \<le> 31
        \<Longrightarrow> int (length DaylyAnnouncement) \<le> uint (rtc_date i) - 1"
    by (simp add: len)
  have c: "boxState s = StateReadyForUse \<and> readCard i = Some UserStandard
        \<and> 25 \<le> uint (rtc_date i) \<and> uint (rtc_date i) \<le> 31
        \<Longrightarrow> DaylyAnnouncement_at (uint (rtc_date i) - 1) = None
          \<and> drop 1 (played (snd (loop s i)))
              = [outside_DaylyAnnouncement i (uint (rtc_date i) - 1)]"
    by (simp add: case_defs loop_StateReadyForUse_def played_doDailyAnnouncement
        DaylyAnnouncement_read_def DaylyAnnouncement_at_def len)
  have d: "boxState s = StateFilled \<and> \<not> firstUse s \<and> rtc_month i = 12
        \<and> uint (rtc_date i) \<noteq> sint (lastDay s)
        \<Longrightarrow> boxState (fst (loop s i)) = StateReadyForUse"
    by (simp add: case_defs loop_StateFilled_def)
  show ?thesis using a b c d by blast
qed

theorem daily_track_index_bounds_witness:
  "boxState (daily StateReadyForUse) = StateReadyForUse
   \<and> readCard (on_day 12 25 (token RFIDStandardKey idle)) = Some UserStandard
   \<and> uint (rtc_date (on_day 12 25 (token RFIDStandardKey idle))) = 25
   \<and> DaylyAnnouncement_at (uint (rtc_date (on_day 12 25 (token RFIDStandardKey idle))) - 1) = None
   \<and> drop 1 (played (snd (loop (daily StateReadyForUse)
                            (on_day 12 25 (token RFIDStandardKey idle))))) = [0xA5]
   \<and> boxState (daily StateFilled) = StateFilled \<and> \<not> firstUse (daily StateFilled)
   \<and> boxState (fst (loop (daily StateFilled) (on_day 12 25 (token RFIDStandardKey idle))))
       = StateReadyForUse"
  using daily_track_index_bounds
    [of "on_day 12 25 (token RFIDStandardKey idle)" "daily StateReadyForUse"]
    daily_track_index_bounds
    [of "on_day 12 25 (token RFIDStandardKey idle)" "daily StateFilled"]
  by (simp add: cycle_simps)

text \<open>
  The read outside the table is reached from power-on: on 25 December the Master token
  opens the box (not on 1 December, so \<open>firstUse\<close> is cleared), the lid is closed, the
  next cycle finds a new day in December, and the Standard token then runs the Daily
  Announcement with index 24. The last track handed to the sound board is the byte
  found outside the table, here \<^verbatim>\<open>0xA5\<close>, which is no entry of the table.
\<close>

lemma out_of_bounds_read_reachable:
  "played (snd (run initial
      [on_day 12 25 (token RFIDMasterKey idle),
       on_day 12 25 (lid_closed idle),
       on_day 12 25 idle,
       on_day 12 25 (token RFIDStandardKey idle)]))
     = [AnnouncementBoxOpenedForFirstFilling, AnnouncementBoxFilled, DaylyGreeting, 0xA5]
   \<and> 0xA5 \<notin> set DaylyAnnouncement"
  by (simp add: case_defs loop_StateOffSeason_def loop_StateOpenedForFilling_def
      loop_StateFilled_def loop_StateReadyForUse_def played_doDailyAnnouncement
      DaylyAnnouncement_read_def DaylyAnnouncement_at_def DaylyAnnouncement_def
      cycle_simps initial_def)

subsection \<open>Credential classification\<close>

text \<open>
  C9. \<^verbatim>\<open>readRFIDKey\<close> returns Master exactly when the size of the identifier read is
  the length of the master key and its bytes are those of the master key; it returns
  Standard exactly when the size is the length of the standard key and the bytes are
  those of the standard key (the two keys differ, so this excludes Master); it returns
  Unknown in every other case. Both keys have 7 bytes.
\<close>

theorem readRFIDKey_classification:
  "(readRFIDKey i = UserMaster \<longleftrightarrow>
      unat (uid_size i) = length RFIDMasterKey \<and> take (length RFIDMasterKey) (uid_uidByte i) = RFIDMasterKey)
   \<and> (readRFIDKey i = UserStandard \<longleftrightarrow>
      unat (uid_size i) = length RFIDStandardKey \<and> take (length RFIDStandardKey) (uid_uidByte i) = RFIDStandardKey)
   \<and> (readRFIDKey i = UserUnknown \<longleftrightarrow>
      \<not> (unat (uid_size i) = length RFIDMasterKey \<and> take (length RFIDMasterKey) (uid_uidByte i) = RFIDMasterKey)
      \<and> \<not> (unat (uid_size i) = length RFIDStandardKey \<and> take (length RFIDStandardKey) (uid_uidByte i) = RFIDStandardKey))
   \<and> length RFIDMasterKey = 7 \<and> length RFIDStandardKey = 7"
proof -
  have m: "length RFIDMasterKey = 7" and st: "length RFIDStandardKey = 7"
    by (simp_all add: RFIDMasterKey_def RFIDStandardKey_def)
  have ne: "RFIDMasterKey \<noteq> RFIDStandardKey"
    by (simp add: RFIDMasterKey_def RFIDStandardKey_def)
  show ?thesis
    using ne by (auto simp: readRFIDKey_def m st memcmp_key7)
qed

theorem readRFIDKey_classification_witness:
  "readRFIDKey (token RFIDMasterKey idle) = UserMaster
   \<and> readRFIDKey (token RFIDStandardKey idle) = UserStandard
   \<and> readRFIDKey (token strangerKey idle) = UserUnknown
   \<and> readRFIDKey (token (RFIDMasterKey @ [0]) idle) = UserUnknown"
  using readRFIDKey_classification [of "token RFIDMasterKey idle"]
    readRFIDKey_classification [of "token RFIDStandardKey idle"]
    readRFIDKey_classification [of "token strangerKey idle"]
    readRFIDKey_classification [of "token (RFIDMasterKey @ [0]) idle"]
  by (simp add: token_def RFIDMasterKey_def RFIDStandardKey_def strangerKey_def)

subsection \<open>Failure of the sound board\<close>

text \<open>
  C10. Take any state and any cycle, and let the calls of \<^verbatim>\<open>sfx.playTrack\<close> in it
  return \<open>f\<close> in one run and \<open>g\<close> in another. The globals after the cycle (the state of
  the machine, \<open>lastDay\<close>, \<open>firstUse\<close>, \<open>blinking\<close> and the rest) are the same in both
  runs, and so are the commands sent to the hardware and every event of the cycle that
  is not a failure line of \<^verbatim>\<open>playTrack\<close>. The failure lines written to the serial
  port are exactly the report owed: for each track handed to the sound board whose call
  returned false, in order, the text \<^verbatim>\<open>Failed to play track\<close> and the track number;
  nothing for a call that returned true.
\<close>

theorem playback_result_does_not_alter_step:
  "fst (loop s (i\<lparr>sfx_playTrack := f\<rparr>)) = fst (loop s (i\<lparr>sfx_playTrack := g\<rparr>))
   \<and> actions (snd (loop s (i\<lparr>sfx_playTrack := f\<rparr>))) = actions (snd (loop s (i\<lparr>sfx_playTrack := g\<rparr>)))
   \<and> other_events (snd (loop s (i\<lparr>sfx_playTrack := f\<rparr>)))
       = other_events (snd (loop s (i\<lparr>sfx_playTrack := g\<rparr>)))
   \<and> failure_lines (snd (loop s i))
       = failed_calls_report (sfx_playTrack i) 0 (played (snd (loop s i)))"
  by (simp add: loop_eq loop_head_sfx fsm_sfx fsm_other fsm_report actions_append
      other_events_append failure_lines_append failure_lines_quiet played_append
      loop_head_fields)

theorem playback_result_does_not_alter_step_witness:
  "fst (loop (daily StateReadyForUse)
          ((token RFIDStandardKey idle)\<lparr>sfx_playTrack := (\<lambda>k. False)\<rparr>))
   = fst (loop (daily StateReadyForUse)
          ((token RFIDStandardKey idle)\<lparr>sfx_playTrack := (\<lambda>k. True)\<rparr>))
   \<and> failure_lines (snd (loop (daily StateReadyForUse)
          ((token RFIDStandardKey idle)\<lparr>sfx_playTrack := (\<lambda>k. False)\<rparr>)))
       = [SerialPrint ''Failed to play track '', SerialPrintlnByte DaylyGreeting,
          SerialPrint ''Failed to play track '', SerialPrintlnByte 22]
   \<and> failure_lines (snd (loop (daily StateReadyForUse)
          ((token RFIDStandardKey idle)\<lparr>sfx_playTrack := (\<lambda>k. k = 0)\<rparr>)))
       = [SerialPrint ''Failed to play track '', SerialPrintlnByte 22]
   \<and> failure_lines (snd (loop (daily StateReadyForUse) (token RFIDStandardKey idle))) = []"
  using playback_result_does_not_alter_step
    [where s = "daily StateReadyForUse" and i = "token RFIDStandardKey idle"
       and f = "\<lambda>k. False" and g = "\<lambda>k. True"]
    playback_result_does_not_alter_step
    [where s = "daily StateReadyForUse"
       and i = "(token RFIDStandardKey idle)\<lparr>sfx_playTrack := (\<lambda>k. False)\<rparr>"]
    playback_result_does_not_alter_step
    [where s = "daily StateReadyForUse"
       and i = "(token RFIDStandardKey idle)\<lparr>sfx_playTrack := (\<lambda>k. k = 0)\<rparr>"]
    playback_result_does_not_alter_step
    [where s = "daily StateReadyForUse" and i = "token RFIDStandardKey idle"]
  by (simp add: case_defs loop_StateReadyForUse_def cycle_simps readCard_sfx
      played_doDailyAnnouncement DaylyAnnouncement_read_def DaylyAnnouncement_at_def
      DaylyAnnouncement_def)

end
